theory Spec2Isabelle
  imports Complex_Main
begin

section \<open>Values exchanged with the outside world\<close>

text \<open>
  Python values that travel through \<open>json.load\<close>, \<open>json.dump\<close> and the response body.
  A Python \<open>str\<close> is kept as its UTF-8 bytes; a \<open>dict\<close> is an association list in
  insertion order.
\<close>

datatype json =
    JNull
  | JBool bool
  | JInt int
  | JStr string
  | JArr "json list"
  | JObj "(string \<times> json) list"

text \<open>Python truthiness, as tested by \<open>if not cookies\<close>.\<close>

fun truthy :: "json \<Rightarrow> bool" where
  "truthy JNull = False"
| "truthy (JBool b) = b"
| "truthy (JInt n) = (n \<noteq> 0)"
| "truthy (JStr s) = (s \<noteq> [])"
| "truthy (JArr xs) = (xs \<noteq> [])"
| "truthy (JObj kvs) = (kvs \<noteq> [])"

fun is_dict :: "json \<Rightarrow> bool" where
  "is_dict (JObj kvs) = True"
| "is_dict _ = False"

section \<open>The response envelope (\<open>ApiResponseModel\<close>, \<open>ApiResponse\<close>)\<close>

text \<open>\<open>class ApiResponseModel(BaseModel)\<close>: \<open>data\<close> and \<open>errors\<close> default to \<open>None\<close>.\<close>

record ApiResponseModel =
  code :: int
  message :: string
  data :: json
  errors :: "string list option"
  timestamp :: int

text \<open>
  \<open>.dict(exclude_unset=True, exclude_defaults=True)\<close>. The constructor call sets all five
  fields, so nothing is unset; a field is dropped when its value equals its declared default.
  Only \<open>data\<close> and \<open>errors\<close> declare one (\<open>None\<close>).
\<close>

definition dict_excluding_defaults :: "ApiResponseModel \<Rightarrow> (string \<times> json) list" where
  "dict_excluding_defaults m =
     [(''code'', JInt (code m)), (''message'', JStr (message m))]
     @ (if data m = JNull then [] else [(''data'', data m)])
     @ (case errors m of None \<Rightarrow> [] | Some es \<Rightarrow> [(''errors'', JArr (map JStr es))])
     @ [(''timestamp'', JInt (timestamp m))]"

text \<open>The \<open>errors: str | list[str] | None\<close> argument of \<open>ApiResponse.__init__\<close>.\<close>

datatype errors_arg = NoErrors | ErrStr string | ErrList "string list"

text \<open>\<open>if errors:\<close> --- \<open>None\<close>, the empty string and the empty list are falsy.\<close>

fun errors_truthy :: "errors_arg \<Rightarrow> bool" where
  "errors_truthy NoErrors = False"
| "errors_truthy (ErrStr s) = (s \<noteq> [])"
| "errors_truthy (ErrList es) = (es \<noteq> [])"

text \<open>
  \<open>processed_errors = None\<close>;
  \<open>if errors: processed_errors = [errors] if isinstance(errors, str) else errors\<close>
\<close>

definition processed_errors :: "errors_arg \<Rightarrow> string list option" where
  "processed_errors e =
     (if errors_truthy e
      then (case e of ErrStr s \<Rightarrow> Some [s] | ErrList es \<Rightarrow> Some es | NoErrors \<Rightarrow> None)
      else None)"

record ApiResponse =
  status_code :: int
  content :: "(string \<times> json) list"

text \<open>\<open>ApiResponse.__init__\<close>; \<open>now\<close> is the value of \<open>int(time())\<close>.\<close>

definition ApiResponse_init :: "int \<Rightarrow> int \<Rightarrow> string \<Rightarrow> json \<Rightarrow> errors_arg \<Rightarrow> ApiResponse" where
  "ApiResponse_init now sc msg d e =
     \<lparr> status_code = sc,
       content = dict_excluding_defaults
         \<lparr> code = sc, message = msg, data = d, errors = processed_errors e, timestamp = now \<rparr> \<rparr>"

definition HTTP_200_OK :: int where "HTTP_200_OK = 200"
definition HTTP_400_BAD_REQUEST :: int where "HTTP_400_BAD_REQUEST = 400"
definition HTTP_401_UNAUTHORIZED :: int where "HTTP_401_UNAUTHORIZED = 401"
definition HTTP_404_NOT_FOUND :: int where "HTTP_404_NOT_FOUND = 404"
definition HTTP_422_UNPROCESSABLE_ENTITY :: int where "HTTP_422_UNPROCESSABLE_ENTITY = 422"
definition HTTP_500_INTERNAL_SERVER_ERROR :: int where "HTTP_500_INTERNAL_SERVER_ERROR = 500"
definition HTTP_503_SERVICE_UNAVAILABLE :: int where "HTTP_503_SERVICE_UNAVAILABLE = 503"

text \<open>\<open>ApiResponse.success(data, message, status_code)\<close>\<close>

definition success :: "int \<Rightarrow> json \<Rightarrow> string \<Rightarrow> int \<Rightarrow> ApiResponse" where
  "success now d msg sc = ApiResponse_init now sc msg d NoErrors"

text \<open>\<open>ApiResponse.error(errors, message, status_code)\<close>\<close>

definition error :: "int \<Rightarrow> errors_arg \<Rightarrow> string \<Rightarrow> int \<Rightarrow> ApiResponse" where
  "error now e msg sc = ApiResponse_init now sc msg JNull e"

text \<open>The keys present in a response body, and the value stored under a key.\<close>

definition body_keys :: "ApiResponse \<Rightarrow> string list" where
  "body_keys r = map fst (content r)"

definition body_field :: "ApiResponse \<Rightarrow> string \<Rightarrow> json option" where
  "body_field r k = map_of (content r) k"

section \<open>Message constants of \<open>web/app.py\<close> (UTF-8 bytes)\<close>

text \<open>The marker \<open>"QQ<music>API<error>: <credential expired>"\<close> tested at line 215.\<close>

definition expired_marker :: string where
  "expired_marker = [CHR 0x51, CHR 0x51, CHR 0xE9, CHR 0x9F, CHR 0xB3, CHR 0xE4, CHR 0xB9, CHR 0x90,
     CHR 0x41, CHR 0x50, CHR 0x49, CHR 0xE9, CHR 0x94, CHR 0x99, CHR 0xE8, CHR 0xAF, CHR 0xAF, CHR 0x3A,
     CHR 0x20, CHR 0xE5, CHR 0x87, CHR 0xAD, CHR 0xE8, CHR 0xAF, CHR 0x81, CHR 0xE5, CHR 0xB7, CHR 0xB2,
     CHR 0xE8, CHR 0xBF, CHR 0x87, CHR 0xE6, CHR 0x9C, CHR 0x9F]"

text \<open>"The server is logging in, please try again later" (line 157).\<close>

definition msg_logging_in :: string where
  "msg_logging_in = [CHR 0xE6, CHR 0x9C, CHR 0x8D, CHR 0xE5, CHR 0x8A, CHR 0xA1, CHR 0xE5, CHR 0x99,
     CHR 0xA8, CHR 0xE6, CHR 0xAD, CHR 0xA3, CHR 0xE5, CHR 0x9C, CHR 0xA8, CHR 0xE7, CHR 0x99, CHR 0xBB,
     CHR 0xE5, CHR 0xBD, CHR 0x95, CHR 0xEF, CHR 0xBC, CHR 0x8C, CHR 0xE8, CHR 0xAF, CHR 0xB7, CHR 0xE7,
     CHR 0xA8, CHR 0x8D, CHR 0xE5, CHR 0x90, CHR 0x8E, CHR 0xE5, CHR 0x86, CHR 0x8D, CHR 0xE8, CHR 0xAF,
     CHR 0x95]"

text \<open>"Invalid user credential" (line 194).\<close>

definition msg_invalid_credential :: string where
  "msg_invalid_credential = [CHR 0xE6, CHR 0x97, CHR 0xA0, CHR 0xE6, CHR 0x95, CHR 0x88, CHR 0xE7,
     CHR 0x9A, CHR 0x84, CHR 0xE7, CHR 0x94, CHR 0xA8, CHR 0xE6, CHR 0x88, CHR 0xB7, CHR 0xE5, CHR 0x87,
     CHR 0xAD, CHR 0xE8, CHR 0xAF, CHR 0x81]"

text \<open>"An exception occurred while the server handled the request" (line 206).\<close>

definition msg_parse_exception :: string where
  "msg_parse_exception = [CHR 0xE6, CHR 0x9C, CHR 0x8D, CHR 0xE5, CHR 0x8A, CHR 0xA1, CHR 0xE5,
     CHR 0x99, CHR 0xA8, CHR 0xE5, CHR 0xA4, CHR 0x84, CHR 0xE7, CHR 0x90, CHR 0x86, CHR 0xE8, CHR 0xAF,
     CHR 0xB7, CHR 0xE6, CHR 0xB1, CHR 0x82, CHR 0xE6, CHR 0x97, CHR 0xB6, CHR 0xE5, CHR 0x8F, CHR 0x91,
     CHR 0xE7, CHR 0x94, CHR 0x9F, CHR 0xE5, CHR 0xBC, CHR 0x82, CHR 0xE5, CHR 0xB8, CHR 0xB8]"

text \<open>"Invalid request parameters" (line 233).\<close>

definition msg_invalid_params :: string where
  "msg_invalid_params = [CHR 0xE6, CHR 0x97, CHR 0xA0, CHR 0xE6, CHR 0x95, CHR 0x88, CHR 0xE7,
     CHR 0x9A, CHR 0x84, CHR 0xE8, CHR 0xAF, CHR 0xB7, CHR 0xE6, CHR 0xB1, CHR 0x82, CHR 0xE5, CHR 0x8F,
     CHR 0x82, CHR 0xE6, CHR 0x95, CHR 0xB0]"

text \<open>"Request succeeded" (line 237).\<close>

definition msg_request_ok :: string where
  "msg_request_ok = [CHR 0xE8, CHR 0xAF, CHR 0xB7, CHR 0xE6, CHR 0xB1, CHR 0x82, CHR 0xE6, CHR 0x88,
     CHR 0x90, CHR 0xE5, CHR 0x8A, CHR 0x9F]"

text \<open>"Internal server error" (line 134).\<close>

definition msg_server_error :: string where
  "msg_server_error = [CHR 0xE6, CHR 0x9C, CHR 0x8D, CHR 0xE5, CHR 0x8A, CHR 0xA1, CHR 0xE5, CHR 0x99,
     CHR 0xA8, CHR 0xE5, CHR 0x86, CHR 0x85, CHR 0xE9, CHR 0x83, CHR 0xA8, CHR 0xE9, CHR 0x94, CHR 0x99,
     CHR 0xE8, CHR 0xAF, CHR 0xAF]"

text \<open>"The requested resource does not exist" (line 128).\<close>

definition msg_not_found :: string where
  "msg_not_found = [CHR 0xE8, CHR 0xAF, CHR 0xB7, CHR 0xE6, CHR 0xB1, CHR 0x82, CHR 0xE7, CHR 0x9A,
     CHR 0x84, CHR 0xE8, CHR 0xB5, CHR 0x84, CHR 0xE6, CHR 0xBA, CHR 0x90, CHR 0xE4, CHR 0xB8, CHR 0x8D,
     CHR 0xE5, CHR 0xAD, CHR 0x98, CHR 0xE5, CHR 0x9C, CHR 0xA8]"

text \<open>"Parameter validation failed" (line 141).\<close>

definition msg_validation :: string where
  "msg_validation = [CHR 0xE5, CHR 0x8F, CHR 0x82, CHR 0xE6, CHR 0x95, CHR 0xB0, CHR 0xE9, CHR 0xAA,
     CHR 0x8C, CHR 0xE8, CHR 0xAF, CHR 0x81, CHR 0xE5, CHR 0xA4, CHR 0xB1, CHR 0xE8, CHR 0xB4, CHR 0xA5]"

section \<open>The \<open>Credential\<close> collaborator\<close>

text \<open>
  \<open>qqmusic_api.Credential\<close> is consumed through the calls the handler makes on it. Each
  boolean field is the truth value the handler sees when it tests the result of that call;
  \<open>as_dict\<close> is the flat key-value serialisation.
\<close>

record Credential =
  has_musicid :: bool
  has_musickey :: bool
  is_expired :: bool
  can_refresh :: bool
  as_dict :: "(string \<times> json) list"

text \<open>The outcome of a call into a collaborator: a value, a \<open>LoginError\<close>, or another exception.\<close>

datatype 'a call = Returned 'a | RaisedLoginError | RaisedException

section \<open>The interactive login (\<open>examples/qrcode_login.py\<close>)\<close>

datatype QRCodeLoginEvents = DONE | TIMEOUT | SCAN | OTHER_EVENT

text \<open>
  One pass through the polling loop observes the clock (\<open>time() - start_time\<close>) and, unless
  the timeout has passed, the answer of \<open>check_qrcode\<close>.
\<close>

record poll =
  elapsed_time :: real
  check_qrcode :: "(QRCodeLoginEvents \<times> Credential option) call"

record login_io =
  get_qrcode :: "unit call"
  show_qrcode :: "unit call"
  polls :: "poll list"

text \<open>
  The \<open>while True\<close> loop. \<open>Some r\<close>: the loop was left with \<open>r\<close>, where \<open>Returned None\<close> stands for
  every path that reaches \<open>return None\<close> (timeout, \<open>break\<close>, a caught \<open>LoginError\<close>) and
  \<open>RaisedException\<close> for the re-raised exception. \<open>None\<close>: the observations ran out while the
  loop was still polling. On \<open>DONE\<close> the code reads \<open>credential.musicid\<close>, which raises
  when \<open>credential\<close> is \<open>None\<close>.
\<close>

fun poll_loop :: "real \<Rightarrow> poll list \<Rightarrow> Credential option call option" where
  "poll_loop timeout [] = None"
| "poll_loop timeout (p # ps) =
     (if elapsed_time p > timeout then Some (Returned None)
      else (case check_qrcode p of
              RaisedLoginError \<Rightarrow> Some (Returned None)
            | RaisedException \<Rightarrow> Some RaisedException
            | Returned (event, credential) \<Rightarrow>
                if event = DONE then
                  (case credential of
                     None \<Rightarrow> Some RaisedException
                   | Some c \<Rightarrow> Some (Returned (Some c)))
                else if event = TIMEOUT then Some (Returned None)
                else poll_loop timeout ps))"

definition qrcode_login_example :: "login_io \<Rightarrow> real \<Rightarrow> Credential option call option" where
  "qrcode_login_example io timeout =
     (case get_qrcode io of
        RaisedLoginError \<Rightarrow> Some (Returned None)
      | RaisedException \<Rightarrow> Some RaisedException
      | Returned _ \<Rightarrow>
          (case show_qrcode io of
             RaisedLoginError \<Rightarrow> Some (Returned None)
           | RaisedException \<Rightarrow> Some RaisedException
           | Returned _ \<Rightarrow> poll_loop timeout (polls io)))"

section \<open>Durable storage (\<open>qqMusicCookies.json\<close>)\<close>

text \<open>
  The configuration file: missing, present with text that is not JSON (also: truncated by an
  interrupted write), or present holding a JSON document.
\<close>

datatype config_file = Absent | Garbage | Doc json

text \<open>
  What can go wrong in \<open>with open(config_path, "w") as f: json.dump(..., f)\<close>: \<open>open\<close> raises
  (the file is untouched), or \<open>open\<close> truncates the file and the dump raises.
\<close>

datatype write_fault = NoFault | OpenFault | DumpFault

fun write_config :: "write_fault \<Rightarrow> json \<Rightarrow> config_file \<Rightarrow> config_file \<times> bool" where
  "write_config NoFault j f = (Doc j, True)"
| "write_config OpenFault j f = (f, False)"
| "write_config DumpFault j f = (Garbage, False)"

text \<open>
  \<open>load_credential_from_file\<close>. \<open>create\<close> is the fault of the write that creates a missing
  file, \<open>read_ok\<close> says whether \<open>open(config_path, "r")\<close> and the read succeed. The second
  component is the returned value; \<open>config.get\<close> exists only when \<open>config\<close> is a dict,
  any other document raises inside the \<open>try\<close>.
\<close>

definition load_credential_from_file :: "write_fault \<Rightarrow> bool \<Rightarrow> config_file \<Rightarrow> config_file \<times> json" where
  "load_credential_from_file create read_ok f =
     (let (f1, ok) = (if f = Absent then write_config create (JObj [(''cookies'', JObj [])]) f
                      else (f, True))
      in if \<not> ok then (f1, JObj [])
         else if \<not> read_ok then (f1, JObj [])
         else (case f1 of
                 Doc (JObj config) \<Rightarrow>
                   (f1, (case map_of config ''cookies'' of Some v \<Rightarrow> v | None \<Rightarrow> JObj []))
               | _ \<Rightarrow> (f1, JObj [])))"

text \<open>
  \<open>save_credential_to_file\<close>: every exception is caught, so the call always returns; the
  result is the file afterwards.
\<close>

definition save_credential_to_file :: "write_fault \<Rightarrow> Credential \<Rightarrow> config_file \<Rightarrow> config_file" where
  "save_credential_to_file fault credential f =
     fst (write_config fault (JObj [(''cookies'', JObj (as_dict credential))]) f)"

section \<open>Process-wide state and the request handler (\<open>_api_web\<close>)\<close>

text \<open>
  Credential objects live in a store and are referred to by address, so that mutating an object
  in place (\<open>refresh\<close>) and rebinding the global name (\<open>global_credential = ...\<close>) stay
  distinct. \<open>None\<close> in a slot is Python's \<open>None\<close>.
\<close>

type_synonym ref = nat

text \<open>
  Calls that leave the handler, in the order they happen. \<open>Login l f\<close> is the start of
  \<open>qrcode_login_example\<close>, with the lock state \<open>l\<close> and the flag value \<open>f\<close> at that moment.
\<close>

datatype event =
    Acquire
  | Release
  | SetFlag bool
  | FromCookies
  | Login bool bool
  | Save ref
  | Refresh ref
  | SetSession
  | Parse

record state =
  heap :: "ref \<Rightarrow> Credential"
  next_ref :: ref
  global_credential :: "ref option"
  credential_lock :: bool
  is_logging_in :: bool
  cookies :: json
  config :: config_file
  session_credential :: "ref option"
  trace :: "event list"

text \<open>How a block of the handler ends: it completes, an exception leaves it, or it never returns.\<close>

datatype 'a result = Done 'a | Raise | Hang

text \<open>What the collaborators answer during one request.\<close>

record env =
  now :: int
  from_cookies_dict :: "json \<Rightarrow> Credential option"
  guard_login :: login_io
  guard_save :: write_fault
  refresh_mutation :: "Credential \<Rightarrow> Credential"
  refresh_outcome :: "Credential \<Rightarrow> unit call"
  parse :: "(json \<times> string list option) option"
  valid :: bool
  retry_login :: login_io
  retry_save :: write_fault

definition emit :: "event list \<Rightarrow> state \<Rightarrow> state" where
  "emit es s = s\<lparr>trace := trace s @ es\<rparr>"

text \<open>The events a step added to the trace.\<close>

definition new_events :: "state \<Rightarrow> state \<Rightarrow> event list" where
  "new_events s s' = drop (length (trace s)) (trace s')"

text \<open>A new object is placed at the next free address.\<close>

definition alloc :: "Credential \<Rightarrow> state \<Rightarrow> state" where
  "alloc c s = s\<lparr>heap := (heap s)(next_ref s := c), next_ref := Suc (next_ref s)\<rparr>"

text \<open>
  \<open>with credential_lock:\<close> --- a blocking acquire of a non-reentrant lock, released when the
  body is left, normally or by an exception.
\<close>

definition with_credential_lock :: "(state \<Rightarrow> state \<times> 'a result) \<Rightarrow> state \<Rightarrow> state \<times> 'a result" where
  "with_credential_lock body s =
     (if credential_lock s then (s, Hang)
      else (case body (emit [Acquire] (s\<lparr>credential_lock := True\<rparr>)) of
              (s1, Hang) \<Rightarrow> (s1, Hang)
            | (s1, r) \<Rightarrow> (emit [Release] (s1\<lparr>credential_lock := False\<rparr>), r)))"

text \<open>
  Lines 177--183 and 218--224:
  \<open>is_logging_in = True; try: global_credential = await qrcode_login_example(QRLoginType.QQ);
  if global_credential: save_credential_to_file(global_credential); finally: is_logging_in = False\<close>.
  The login runs with its default timeout of 60 seconds. A credential object is truthy, so the
  save is skipped only for \<open>None\<close>.
\<close>

definition relogin :: "login_io \<Rightarrow> write_fault \<Rightarrow> state \<Rightarrow> state \<times> unit result" where
  "relogin io fault s =
     (let s1 = emit [SetFlag True, Login (credential_lock s) True] (s\<lparr>is_logging_in := True\<rparr>)
      in case qrcode_login_example io 60 of
           None \<Rightarrow> (s1, Hang)
         | Some (Returned None) \<Rightarrow>
             (emit [SetFlag False] (s1\<lparr>global_credential := None, is_logging_in := False\<rparr>), Done ())
         | Some (Returned (Some c)) \<Rightarrow>
             (let r = next_ref s1;
                  s2 = (alloc c s1)\<lparr>global_credential := Some r\<rparr>;
                  s3 = emit [Save r] (s2\<lparr>config := save_credential_to_file fault c (config s2)\<rparr>)
              in (emit [SetFlag False] (s3\<lparr>is_logging_in := False\<rparr>), Done ()))
         | Some _ \<Rightarrow> (emit [SetFlag False] (s1\<lparr>is_logging_in := False\<rparr>), Raise))"

text \<open>Line 164: \<open>global_credential is None or not (global_credential.is_expired())\<close>.\<close>

definition needs_credential :: "state \<Rightarrow> bool" where
  "needs_credential s =
     (case global_credential s of None \<Rightarrow> True | Some r \<Rightarrow> \<not> is_expired (heap s r))"

text \<open>
  Lines 166--174, the inner \<open>try\<close>: \<open>Some c\<close> when the credential built from the cookies passes
  the test of line 171, \<open>None\<close> when one of the two \<open>raise\<close> statements or
  \<open>from_cookies_dict\<close> itself raises.
\<close>

definition credential_from_cookies :: "env \<Rightarrow> state \<Rightarrow> state \<times> Credential option" where
  "credential_from_cookies e s =
     (if \<not> truthy (cookies s) then (s, None)
      else (case from_cookies_dict e (cookies s) of
              None \<Rightarrow> (emit [FromCookies] s, None)
            | Some credential \<Rightarrow>
                if \<not> (has_musicid credential \<and> has_musickey credential \<and> is_expired credential)
                then (emit [FromCookies] s, None)
                else (emit [FromCookies] s, Some credential)))"

text \<open>Lines 164--183: the branch taken when a credential is needed.\<close>

definition obtain_credential :: "env \<Rightarrow> state \<Rightarrow> state \<times> unit result" where
  "obtain_credential e s =
     (case credential_from_cookies e s of
        (s1, Some credential) \<Rightarrow> ((alloc credential s1)\<lparr>global_credential := Some (next_ref s1)\<rparr>, Done ())
      | (s1, None) \<Rightarrow> relogin (guard_login e) (guard_save e) s1)"

text \<open>
  Lines 185--187: \<open>if global_credential.can_refresh(): await global_credential.refresh()\<close>.
  With \<open>None\<close> in the slot the attribute access raises. \<open>refresh\<close> works on the object itself.
\<close>

definition refresh_step :: "env \<Rightarrow> state \<Rightarrow> state \<times> unit result" where
  "refresh_step e s =
     (case global_credential s of
        None \<Rightarrow> (s, Raise)
      | Some r \<Rightarrow>
          if can_refresh (heap s r) then
            (let s1 = emit [Refresh r] (s\<lparr>heap := (heap s)(r := refresh_mutation e (heap s r))\<rparr>)
             in case refresh_outcome e (heap s r) of
                  Returned _ \<Rightarrow> (s1, Done ())
                | _ \<Rightarrow> (s1, Raise))
          else (s, Done ()))"

text \<open>Lines 164--183: the \<open>if\<close> statement around that branch.\<close>

definition ensure_credential :: "env \<Rightarrow> state \<Rightarrow> state \<times> unit result" where
  "ensure_credential e s = (if needs_credential s then obtain_credential e s else (s, Done ()))"

text \<open>
  Lines 164--191, the body of the first \<open>with credential_lock\<close>: the \<open>if\<close> statement, then
  the refresh check (a statement of its own, not an \<open>else\<close>), then the session assignment.
\<close>

definition guard_body :: "env \<Rightarrow> state \<Rightarrow> state \<times> unit result" where
  "guard_body e s =
     (case ensure_credential e s of
        (s1, Done _) \<Rightarrow>
          (case refresh_step e s1 of
             (s2, Done _) \<Rightarrow>
               (emit [SetSession] (s2\<lparr>session_credential := global_credential s2\<rparr>), Done ())
           | (s2, r) \<Rightarrow> (s2, r))
      | (s1, r) \<Rightarrow> (s1, r))"

text \<open>Lines 162--191.\<close>

definition credential_guard :: "env \<Rightarrow> state \<Rightarrow> state \<times> unit result" where
  "credential_guard e s = with_credential_lock (guard_body e) s"

text \<open>\<open>if errors:\<close> on the second component of \<open>parser.parse()\<close>.\<close>

fun reported :: "string list option \<Rightarrow> string list" where
  "reported None = []"
| "reported (Some es) = es"

text \<open>Lines 212--229, reached with a truthy \<open>errors\<close>.\<close>

definition handle_errors :: "env \<Rightarrow> string list \<Rightarrow> state \<Rightarrow> state \<times> ApiResponse result" where
  "handle_errors e es s =
     (let rejected = error (now e) (ErrList es) ''Request Validation Failed'' HTTP_422_UNPROCESSABLE_ENTITY
      in if expired_marker \<in> set es then
           (case with_credential_lock (relogin (retry_login e) (retry_save e)) s of
              (s1, Done _) \<Rightarrow> (s1, Done rejected)
            | (s1, Raise) \<Rightarrow> (s1, Raise)
            | (s1, Hang) \<Rightarrow> (s1, Hang))
         else (s, Done rejected))"

text \<open>Lines 197--237, after the credential guard.\<close>

definition dispatch :: "env \<Rightarrow> state \<Rightarrow> state \<times> ApiResponse result" where
  "dispatch e s =
     (let s1 = emit [Parse] s
      in case parse e of
           None \<Rightarrow>
             (s1, Done (error (now e) (ErrList [msg_parse_exception]) ''Internal Error''
                          HTTP_500_INTERNAL_SERVER_ERROR))
         | Some (result, errs) \<Rightarrow>
             if reported errs \<noteq> [] then handle_errors e (reported errs) s1
             else if \<not> valid e then
               (s1, Done (error (now e) (ErrList [msg_invalid_params]) ''Bad Request'' HTTP_400_BAD_REQUEST))
             else (s1, Done (success (now e) result msg_request_ok HTTP_200_OK)))"

text \<open>\<open>_api_web\<close>.\<close>

definition api_web :: "env \<Rightarrow> state \<Rightarrow> state \<times> ApiResponse result" where
  "api_web e s =
     (if is_logging_in s then
        (s, Done (error (now e) (ErrList [msg_logging_in]) ''Service Unavailable''
                    HTTP_503_SERVICE_UNAVAILABLE))
      else (case credential_guard e s of
              (s1, Done _) \<Rightarrow> dispatch e s1
            | (s1, Raise) \<Rightarrow>
                (s1, Done (error (now e) (ErrStr msg_invalid_credential) ''Unauthorized''
                             HTTP_401_UNAUTHORIZED))
            | (s1, Hang) \<Rightarrow> (s1, Hang)))"

text \<open>The exception handlers of lines 126--142.\<close>

definition not_found_handler :: "int \<Rightarrow> ApiResponse" where
  "not_found_handler t = error t (ErrStr msg_not_found) ''Not Found'' HTTP_404_NOT_FOUND"

definition server_error_handler :: "int \<Rightarrow> ApiResponse" where
  "server_error_handler t =
     error t (ErrList [msg_server_error]) ''Internal Server Error'' HTTP_500_INTERNAL_SERVER_ERROR"

definition validation_error_handler :: "int \<Rightarrow> ApiResponse" where
  "validation_error_handler t =
     error t (ErrList [msg_validation]) ''Validation Error'' HTTP_422_UNPROCESSABLE_ENTITY"

text \<open>
  The route \<open>/{module}/{func}\<close> as the client sees it: an exception that leaves \<open>_api_web\<close> is
  answered by the handler registered for status 500.
\<close>

definition endpoint :: "env \<Rightarrow> state \<Rightarrow> state \<times> ApiResponse result" where
  "endpoint e s =
     (case api_web e s of
        (s1, Raise) \<Rightarrow> (s1, Done (server_error_handler (now e)))
      | (s1, r) \<Rightarrow> (s1, r))"

section \<open>Properties of traces\<close>

text \<open>
  The flag is raised only to run a login: in the trace, \<open>SetFlag True\<close> is followed at once by
  the login (which sees the flag raised), then at most the save, then \<open>SetFlag False\<close>; no
  login and no flag write happens anywhere else.
\<close>

datatype phase = Outside | Flagged | InLogin | AfterSave

definition flag_next :: "phase \<Rightarrow> event \<Rightarrow> phase option" where
  "flag_next p e =
     (case e of
        SetFlag b \<Rightarrow>
          (if b then (if p = Outside then Some Flagged else None)
           else (if p = InLogin \<or> p = AfterSave then Some Outside else None))
      | Login l f \<Rightarrow> (if p = Flagged \<and> f then Some InLogin else None)
      | Save r \<Rightarrow> (if p = InLogin then Some AfterSave else if p = Outside then Some Outside else None)
      | _ \<Rightarrow> (if p = Outside then Some Outside else None))"

fun flag_run :: "phase \<Rightarrow> event list \<Rightarrow> bool" where
  "flag_run p [] = (p = Outside)"
| "flag_run p (e # es) = (case flag_next p e of None \<Rightarrow> False | Some q \<Rightarrow> flag_run q es)"

definition flag_windows :: "event list \<Rightarrow> bool" where
  "flag_windows es = flag_run Outside es"

section \<open>Concrete inputs\<close>

definition blank_credential :: Credential where
  "blank_credential =
     \<lparr> has_musicid = False, has_musickey = False, is_expired = False, can_refresh = False,
       as_dict = [] \<rparr>"

text \<open>A credential with both required fields that does not report itself expired.\<close>

definition fresh_credential :: Credential where
  "fresh_credential =
     \<lparr> has_musicid = True, has_musickey = True, is_expired = False, can_refresh = False,
       as_dict = [(''musicid'', JInt 10001), (''musickey'', JStr ''Q_H_L_fresh'')] \<rparr>"

text \<open>A credential with both required fields whose \<open>is_expired()\<close> and \<open>can_refresh()\<close> are true.\<close>

definition stale_credential :: Credential where
  "stale_credential =
     \<lparr> has_musicid = True, has_musickey = True, is_expired = True, can_refresh = True,
       as_dict = [(''musicid'', JInt 10001), (''musickey'', JStr ''Q_H_L_stale'')] \<rparr>"

text \<open>The QR code is scanned and confirmed on the second poll.\<close>

definition login_succeeds :: "Credential \<Rightarrow> login_io" where
  "login_succeeds c =
     \<lparr> get_qrcode = Returned (), show_qrcode = Returned (),
       polls = [\<lparr> elapsed_time = 0, check_qrcode = Returned (SCAN, None) \<rparr>,
                \<lparr> elapsed_time = 5, check_qrcode = Returned (DONE, Some c) \<rparr>] \<rparr>"

text \<open>Nobody scans the code; the third poll is past the timeout.\<close>

definition login_times_out :: login_io where
  "login_times_out =
     \<lparr> get_qrcode = Returned (), show_qrcode = Returned (),
       polls = [\<lparr> elapsed_time = 0, check_qrcode = Returned (SCAN, None) \<rparr>,
                \<lparr> elapsed_time = 58, check_qrcode = Returned (SCAN, None) \<rparr>,
                \<lparr> elapsed_time = 63, check_qrcode = Returned (SCAN, None) \<rparr>] \<rparr>"

text \<open>Fetching the QR code fails with an exception that is not a \<open>LoginError\<close>.\<close>

definition login_crashes :: login_io where
  "login_crashes = \<lparr> get_qrcode = RaisedException, show_qrcode = Returned (), polls = [] \<rparr>"

text \<open>The process right after start-up with no configuration file on disk (line 123).\<close>

definition startup :: state where
  "startup =
     \<lparr> heap = (\<lambda>_. blank_credential), next_ref = 0, global_credential = None,
       credential_lock = False, is_logging_in = False,
       cookies = snd (load_credential_from_file NoFault True Absent),
       config = fst (load_credential_from_file NoFault True Absent),
       session_credential = None, trace = [] \<rparr>"

text \<open>A credential without the required fields whose \<open>is_expired()\<close> is true.\<close>

definition unidentified_credential :: Credential where
  "unidentified_credential =
     \<lparr> has_musicid = False, has_musickey = False, is_expired = True, can_refresh = False,
       as_dict = [] \<rparr>"

text \<open>What a refresh does to an object in the sample requests: a new key, nothing left to refresh.\<close>

definition renewed :: "Credential \<Rightarrow> Credential" where
  "renewed c =
     c\<lparr> can_refresh := False,
        as_dict := [(''musicid'', JInt 10001), (''musickey'', JStr ''Q_H_L_renewed'')] \<rparr>"

text \<open>
  A request whose collaborators all answer: no credential can be built from the cookies, a
  login at the guard yields \<open>c\<close>, the dispatched call succeeds.
\<close>

definition calm :: "Credential \<Rightarrow> env" where
  "calm c =
     \<lparr> now = 1700000000, from_cookies_dict = (\<lambda>_. None),
       guard_login = login_succeeds c, guard_save = NoFault,
       refresh_mutation = renewed, refresh_outcome = (\<lambda>_. Returned ()),
       parse = Some (JStr ''ok'', None), valid = True,
       retry_login = login_times_out, retry_save = NoFault \<rparr>"

text \<open>The process with \<open>c\<close> in the credential slot.\<close>

definition holding :: "Credential \<Rightarrow> state" where
  "holding c = startup\<lparr>heap := (heap startup)(0 := c), next_ref := 1, global_credential := Some 0\<rparr>"

text \<open>The process started with cookies in the configuration file.\<close>

definition configured :: state where
  "configured =
     startup\<lparr>cookies := JObj [(''musicid'', JInt 10001), (''musickey'', JStr ''Q_H_L_file'')],
             config := Doc (JObj [(''cookies'',
                        JObj [(''musicid'', JInt 10001), (''musickey'', JStr ''Q_H_L_file'')])])\<rparr>"

text \<open>The dispatched call reports that the upstream service found the credential expired.\<close>

definition upstream_expired :: "login_io \<Rightarrow> env" where
  "upstream_expired io =
     (calm fresh_credential)\<lparr>parse := Some (JNull, Some [expired_marker]), retry_login := io\<rparr>"

section \<open>The response envelope\<close>

lemma body_keys_init:
  "body_keys (ApiResponse_init t sc msg d x) =
     [''code'', ''message''] @ (if d = JNull then [] else [''data''])
     @ (if errors_truthy x then [''errors''] else []) @ [''timestamp'']"
  by (cases x)
     (simp_all add: body_keys_def ApiResponse_init_def dict_excluding_defaults_def processed_errors_def)

lemma handle_errors_response:
  "handle_errors e es s = (s', Done r) \<Longrightarrow>
     r = ApiResponse_init (now e) HTTP_422_UNPROCESSABLE_ENTITY ''Request Validation Failed'' JNull (ErrList es)"
  by (auto simp: handle_errors_def error_def Let_def split: if_splits prod.splits result.splits)

lemma dispatch_response:
  "dispatch e s = (s', Done r) \<Longrightarrow>
     \<exists>sc msg d x. r = ApiResponse_init (now e) sc msg d x \<and> (d = JNull \<or> x = NoErrors)"
  by (fastforce simp: dispatch_def error_def success_def Let_def dest: handle_errors_response
        split: option.splits prod.splits if_splits)

lemma api_web_response:
  "api_web e s = (s', Done r) \<Longrightarrow>
     \<exists>sc msg d x. r = ApiResponse_init (now e) sc msg d x \<and> (d = JNull \<or> x = NoErrors)"
  by (auto simp: api_web_def error_def dest: dispatch_response split: if_splits prod.splits result.splits)

lemma endpoint_response:
  "endpoint e s = (s', Done r) \<Longrightarrow>
     \<exists>sc msg d x. r = ApiResponse_init (now e) sc msg d x \<and> (d = JNull \<or> x = NoErrors)"
  by (auto simp: endpoint_def server_error_handler_def error_def dest: api_web_response
        split: prod.splits result.splits)

text \<open>
  C8, as the code has it. The body of a response always holds \<open>code\<close>, \<open>message\<close> and
  \<open>timestamp\<close>. \<open>data\<close> is present exactly when it is not null and \<open>errors\<close> exactly when
  the errors argument is non-empty: a null field is left out of the body, not sent as null.
  No response of the dynamic endpoint (the handler's own responses and the response sent when
  an exception leaves it) holds both \<open>data\<close> and \<open>errors\<close>, so none holds all five fields.
\<close>

theorem envelope_omits_null_fields:
  "body_keys (ApiResponse_init t sc msg d x) =
     [''code'', ''message''] @ (if d = JNull then [] else [''data''])
     @ (if errors_truthy x then [''errors''] else []) @ [''timestamp'']
   \<and> (endpoint e s = (s', Done r) \<longrightarrow>
        set (body_keys r) \<subseteq> {''code'', ''message'', ''data'', ''errors'', ''timestamp''}
        \<and> {''code'', ''message'', ''timestamp''} \<subseteq> set (body_keys r)
        \<and> \<not> (''data'' \<in> set (body_keys r) \<and> ''errors'' \<in> set (body_keys r)))"
proof (intro conjI impI)
  show "body_keys (ApiResponse_init t sc msg d x) =
     [''code'', ''message''] @ (if d = JNull then [] else [''data''])
     @ (if errors_truthy x then [''errors''] else []) @ [''timestamp'']"
    by (rule body_keys_init)
next
  assume "endpoint e s = (s', Done r)"
  then obtain sc msg d x
    where r: "r = ApiResponse_init (now e) sc msg d x" and dx: "d = JNull \<or> x = NoErrors"
    using endpoint_response by blast
  show "set (body_keys r) \<subseteq> {''code'', ''message'', ''data'', ''errors'', ''timestamp''}"
    unfolding r body_keys_init by auto
  show "{''code'', ''message'', ''timestamp''} \<subseteq> set (body_keys r)"
    unfolding r body_keys_init by auto
  show "\<not> (''data'' \<in> set (body_keys r) \<and> ''errors'' \<in> set (body_keys r))"
    using dx unfolding r body_keys_init by auto
qed

lemma busy_run:
  "endpoint (calm fresh_credential) (startup\<lparr>is_logging_in := True\<rparr>)
     = (startup\<lparr>is_logging_in := True\<rparr>,
        Done (error 1700000000 (ErrList [msg_logging_in]) ''Service Unavailable''
                HTTP_503_SERVICE_UNAVAILABLE))"
  by (simp add: endpoint_def api_web_def calm_def)

theorem envelope_omits_null_fields_witness:
  "endpoint (calm fresh_credential) (startup\<lparr>is_logging_in := True\<rparr>)
     = (startup\<lparr>is_logging_in := True\<rparr>,
        Done (error 1700000000 (ErrList [msg_logging_in]) ''Service Unavailable''
                HTTP_503_SERVICE_UNAVAILABLE))
   \<and> \<not> (''data'' \<in> set (body_keys (error 1700000000 (ErrList [msg_logging_in]) ''Service Unavailable''
                                         HTTP_503_SERVICE_UNAVAILABLE))
        \<and> ''errors'' \<in> set (body_keys (error 1700000000 (ErrList [msg_logging_in]) ''Service Unavailable''
                                         HTTP_503_SERVICE_UNAVAILABLE)))"
  using envelope_omits_null_fields
          [of 0 0 "[]" JNull NoErrors "calm fresh_credential" "startup\<lparr>is_logging_in := True\<rparr>"
              "startup\<lparr>is_logging_in := True\<rparr>"
              "error 1700000000 (ErrList [msg_logging_in]) ''Service Unavailable'' HTTP_503_SERVICE_UNAVAILABLE"]
        busy_run
  by simp

text \<open>
  The response sent while a login is in progress has no \<open>data\<close> field, and a successful
  response with a result has no \<open>errors\<close> field.
\<close>

theorem envelope_five_fields_counterexample:
  "snd (endpoint (calm fresh_credential) (startup\<lparr>is_logging_in := True\<rparr>))
     = Done (error 1700000000 (ErrList [msg_logging_in]) ''Service Unavailable''
               HTTP_503_SERVICE_UNAVAILABLE)
   \<and> body_keys (error 1700000000 (ErrList [msg_logging_in]) ''Service Unavailable''
                  HTTP_503_SERVICE_UNAVAILABLE)
       = [''code'', ''message'', ''errors'', ''timestamp'']
   \<and> body_keys (success 1700000000 (JStr ''ok'') msg_request_ok HTTP_200_OK)
       = [''code'', ''message'', ''data'', ''timestamp'']"
  by (simp add: endpoint_def api_web_def calm_def error_def success_def body_keys_init)

text \<open>
  C10. An error response built from a non-empty string carries that string as a one-element
  list; one built from a non-empty list carries the list unchanged; an absent or empty errors
  argument (\<open>None\<close>, the empty string, the empty list) produces no \<open>errors\<close> entry at all.
\<close>

theorem errors_normalised:
  "(str \<noteq> [] \<longrightarrow> processed_errors (ErrStr str) = Some [str]
       \<and> body_field (error t (ErrStr str) msg sc) ''errors'' = Some (JArr [JStr str]))
   \<and> (es \<noteq> [] \<longrightarrow> processed_errors (ErrList es) = Some es
       \<and> body_field (error t (ErrList es) msg sc) ''errors'' = Some (JArr (map JStr es)))
   \<and> (\<not> errors_truthy x \<longrightarrow> processed_errors x = None
       \<and> body_field (ApiResponse_init t sc msg d x) ''errors'' = None)"
  by (cases x)
     (simp_all add: body_field_def error_def ApiResponse_init_def dict_excluding_defaults_def
        processed_errors_def)

theorem errors_normalised_witness:
  "body_field (error 7 (ErrStr ''boom'') ''Error'' HTTP_400_BAD_REQUEST) ''errors''
     = Some (JArr [JStr ''boom''])
   \<and> body_field (error 7 (ErrList [''a'', ''b'']) ''Error'' HTTP_400_BAD_REQUEST) ''errors''
     = Some (JArr [JStr ''a'', JStr ''b''])
   \<and> body_field (error 7 (ErrStr []) ''Error'' HTTP_400_BAD_REQUEST) ''errors'' = None
   \<and> body_field (error 7 (ErrList []) ''Error'' HTTP_400_BAD_REQUEST) ''errors'' = None
   \<and> body_field (success 7 JNull ''Success'' HTTP_200_OK) ''errors'' = None"
  using errors_normalised [of "''boom''" 7 "''Error''" HTTP_400_BAD_REQUEST "[''a'', ''b'']" "ErrStr []" JNull]
        errors_normalised [of "''boom''" 7 "''Error''" HTTP_400_BAD_REQUEST "[''a'', ''b'']" "ErrList []" JNull]
        errors_normalised [of "''boom''" 7 "''Success''" HTTP_200_OK "[''a'', ''b'']" NoErrors JNull]
  by (simp add: error_def success_def)

section \<open>The handler: trace, flag and lock\<close>

lemmas handler_defs =
  guard_body_def ensure_credential_def with_credential_lock_def obtain_credential_def
  credential_from_cookies_def relogin_def refresh_step_def emit_def alloc_def new_events_def Let_def

lemmas handler_splits =
  if_splits option.splits call.splits prod.splits result.splits

lemmas sample_defs =
  calm_def startup_def holding_def configured_def upstream_expired_def
  login_succeeds_def login_times_out_def login_crashes_def qrcode_login_example_def
  fresh_credential_def stale_credential_def unidentified_credential_def blank_credential_def
  renewed_def load_credential_from_file_def save_credential_to_file_def needs_credential_def

lemma flag_run_append:
  "flag_run p xs \<Longrightarrow> flag_run Outside ys \<Longrightarrow> flag_run p (xs @ ys)"
  by (induction xs arbitrary: p) (auto split: option.splits)

lemma new_events_trans:
  "trace s1 = trace s @ new_events s s1 \<Longrightarrow> trace s2 = trace s1 @ new_events s1 s2 \<Longrightarrow>
     trace s2 = trace s @ new_events s s2 \<and> new_events s s2 = new_events s s1 @ new_events s1 s2"
  by (metis append.assoc append_eq_conv_conj new_events_def)

lemma guard_flag:
  "\<not> is_logging_in s \<Longrightarrow> credential_guard e s = (s', r) \<Longrightarrow> r \<noteq> Hang \<Longrightarrow>
     \<not> is_logging_in s' \<and> trace s' = trace s @ new_events s s' \<and> flag_run Outside (new_events s s')"
  by (auto simp: credential_guard_def handler_defs flag_next_def split: handler_splits)

lemma dispatch_flag:
  "\<not> is_logging_in s \<Longrightarrow> dispatch e s = (s', r) \<Longrightarrow> r \<noteq> Hang \<Longrightarrow>
     \<not> is_logging_in s' \<and> trace s' = trace s @ new_events s s' \<and> flag_run Outside (new_events s s')"
  by (auto simp: dispatch_def handle_errors_def handler_defs flag_next_def split: handler_splits)

lemma guard_trace:
  "credential_guard e s = (s', r) \<Longrightarrow> trace s' = trace s @ new_events s s'"
  by (auto simp: credential_guard_def handler_defs split: handler_splits)

lemma dispatch_trace:
  "dispatch e s = (s', r) \<Longrightarrow> trace s' = trace s @ new_events s s'"
  by (auto simp: dispatch_def handle_errors_def handler_defs split: handler_splits)

lemma guard_logins:
  "credential_guard e s = (s', r) \<Longrightarrow> Login l f \<in> set (new_events s s') \<Longrightarrow> l \<and> f"
  by (auto simp: credential_guard_def handler_defs split: handler_splits)

lemma dispatch_logins:
  "dispatch e s = (s', r) \<Longrightarrow> Login l f \<in> set (new_events s s') \<Longrightarrow> l \<and> f"
  by (auto simp: dispatch_def handle_errors_def handler_defs split: handler_splits)

lemma api_web_cases:
  assumes "api_web e s = (s', r)"
  obtains (busy) "is_logging_in s" "s' = s"
  | (dispatched) s1 where "\<not> is_logging_in s" "credential_guard e s = (s1, Done ())" "dispatch e s1 = (s', r)"
  | (stopped) r1 where "\<not> is_logging_in s" "credential_guard e s = (s', r1)" "r1 \<noteq> Done ()"
  using assms by (auto simp: api_web_def split: if_splits prod.splits result.splits)

lemmas run_defs =
  api_web_def credential_guard_def dispatch_def handle_errors_def handler_defs sample_defs

lemma first_request_trace:
  "trace (fst (api_web (calm fresh_credential) startup))
     = [Acquire, SetFlag True, Login True True, Save 0, SetFlag False, SetSession, Release, Parse]"
  by (simp add: run_defs)

text \<open>
  C6, as the code has it. Every QR login that a request starts is started while the
  credential lock is held and with the in-progress flag raised: both call sites sit inside a
  \<open>with credential_lock\<close> block. This holds for every run, also one that never returns.
\<close>

theorem login_runs_under_lock:
  assumes ev: "Login l f \<in> set (new_events s (fst (api_web e s)))"
  shows "l \<and> f"
proof -
  obtain s' r where run: "api_web e s = (s', r)" by force
  with ev have ev': "Login l f \<in> set (new_events s s')" by simp
  from run show ?thesis
  proof (cases rule: api_web_cases)
    case busy
    with ev' show ?thesis by (simp add: new_events_def)
  next
    case (dispatched s1)
    from new_events_trans[OF guard_trace[OF dispatched(2)] dispatch_trace[OF dispatched(3)]]
    have "new_events s s' = new_events s s1 @ new_events s1 s'" by simp
    with ev' have "Login l f \<in> set (new_events s s1) \<or> Login l f \<in> set (new_events s1 s')" by simp
    then show ?thesis
      using guard_logins[OF dispatched(2)] dispatch_logins[OF dispatched(3)] by blast
  next
    case (stopped r1)
    with ev' show ?thesis using guard_logins by blast
  qed
qed

text \<open>
  The first request after start-up logs in, with the lock held.
\<close>

theorem login_runs_under_lock_witness:
  "Login True True \<in> set (new_events startup (fst (api_web (calm fresh_credential) startup)))
   \<and> (True \<and> True)"
proof -
  have "Login True True \<in> set (new_events startup (fst (api_web (calm fresh_credential) startup)))"
    by (simp add: new_events_def first_request_trace) (simp add: startup_def)
  with login_runs_under_lock[of True True startup "calm fresh_credential"] show ?thesis by simp
qed

text \<open>
  The first request after start-up: the login is started after the lock is acquired and
  before it is released; the login observes the lock as held.
\<close>

theorem login_outside_lock_counterexample:
  "trace (fst (api_web (calm fresh_credential) startup))
     = [Acquire, SetFlag True, Login True True, Save 0, SetFlag False, SetSession, Release, Parse]"
  by (simp add: run_defs)

text \<open>
  C3. With the flag raised the handler answers 503 at once and touches nothing, so the
  credential sequence only ever begins with the flag down. Begun with the flag down, every
  request that comes to an end (a response or an exception) leaves the flag down, and the
  flag was raised only in windows that open right before a login and close right after it
  (after the save, if there is one).
\<close>

theorem flag_false_around_request:
  "(is_logging_in s \<longrightarrow>
      api_web e s = (s, Done (error (now e) (ErrList [msg_logging_in]) ''Service Unavailable''
                                HTTP_503_SERVICE_UNAVAILABLE)))
   \<and> (\<not> is_logging_in s \<and> api_web e s = (s', r) \<and> r \<noteq> Hang \<longrightarrow>
        \<not> is_logging_in s' \<and> flag_windows (new_events s s'))"
proof (rule conjI; rule impI)
  assume "is_logging_in s"
  then show "api_web e s = (s, Done (error (now e) (ErrList [msg_logging_in]) ''Service Unavailable''
                                HTTP_503_SERVICE_UNAVAILABLE))"
    by (simp add: api_web_def)
next
  assume "\<not> is_logging_in s \<and> api_web e s = (s', r) \<and> r \<noteq> Hang"
  then have nf: "\<not> is_logging_in s" and run: "api_web e s = (s', r)" and nh: "r \<noteq> Hang"
    by simp_all
  from run show "\<not> is_logging_in s' \<and> flag_windows (new_events s s')"
  proof (cases rule: api_web_cases)
    case busy
    with nf show ?thesis by simp
  next
    case (dispatched s1)
    from guard_flag[OF nf dispatched(2)]
    have 1: "\<not> is_logging_in s1" "trace s1 = trace s @ new_events s s1" "flag_run Outside (new_events s s1)"
      by simp_all
    from dispatch_flag[OF 1(1) dispatched(3) nh]
    have 2: "\<not> is_logging_in s'" "trace s' = trace s1 @ new_events s1 s'" "flag_run Outside (new_events s1 s')"
      by simp_all
    from new_events_trans[OF 1(2) 2(2)] 1(3) 2(3) 2(1) show ?thesis
      by (simp add: flag_windows_def flag_run_append)
  next
    case (stopped r1)
    from stopped(2) run nf nh have "r1 \<noteq> Hang" by (auto simp: api_web_def)
    from guard_flag[OF nf stopped(2) this] show ?thesis
      by (simp add: flag_windows_def)
  qed
qed

text \<open>
  A request whose second login raises: the exception leaves the handler, the flag is down.
  A request that finds the flag raised: 503, state untouched.
\<close>

theorem flag_false_around_request_witness:
  "\<not> is_logging_in startup
   \<and> snd (api_web (upstream_expired login_crashes) startup) = Raise
   \<and> \<not> is_logging_in (fst (api_web (upstream_expired login_crashes) startup))
   \<and> flag_windows (new_events startup (fst (api_web (upstream_expired login_crashes) startup)))
   \<and> api_web (calm fresh_credential) (startup\<lparr>is_logging_in := True\<rparr>)
       = (startup\<lparr>is_logging_in := True\<rparr>,
          Done (error 1700000000 (ErrList [msg_logging_in]) ''Service Unavailable''
                  HTTP_503_SERVICE_UNAVAILABLE))"
proof -
  have a: "\<not> is_logging_in startup" by (simp add: startup_def)
  have b: "snd (api_web (upstream_expired login_crashes) startup) = Raise"
    by (simp add: run_defs)
  have c: "api_web (upstream_expired login_crashes) startup
             = (fst (api_web (upstream_expired login_crashes) startup), Raise)"
    using b by (metis prod.collapse)
  have d: "is_logging_in (startup\<lparr>is_logging_in := True\<rparr>)" by simp
  have e: "now (calm fresh_credential) = 1700000000" by (simp add: calm_def)
  from flag_false_around_request
         [of startup "upstream_expired login_crashes"
             "fst (api_web (upstream_expired login_crashes) startup)" Raise]
       flag_false_around_request
         [of "startup\<lparr>is_logging_in := True\<rparr>" "calm fresh_credential"]
       a b c d e
  show ?thesis by simp
qed

section \<open>Entering the reconstruction branch\<close>

text \<open>
  C1, the code at the failing input. The slot holds a credential with music id and music key
  that is not expired. The test of line 164 holds for it, so the branch is entered: with
  nothing to build from the cookies a QR login runs and its result replaces the credential.
  The same happens to the second of two requests after a start without a configuration file:
  the credential cached by the first request is not reused, the second request logs in again.
\<close>

theorem unexpired_current_credential_relogin:
  "global_credential (holding fresh_credential) = Some 0
   \<and> \<not> is_expired (heap (holding fresh_credential) 0)
   \<and> has_musicid (heap (holding fresh_credential) 0)
   \<and> has_musickey (heap (holding fresh_credential) 0)
   \<and> needs_credential (holding fresh_credential)
   \<and> trace (fst (credential_guard (calm fresh_credential) (holding fresh_credential)))
       = [Acquire, SetFlag True, Login True True, Save 1, SetFlag False, SetSession, Release]
   \<and> global_credential (fst (credential_guard (calm fresh_credential) (holding fresh_credential)))
       = Some 1
   \<and> trace (fst (api_web (calm fresh_credential) (fst (api_web (calm fresh_credential) startup))))
       = [Acquire, SetFlag True, Login True True, Save 0, SetFlag False, SetSession, Release, Parse,
          Acquire, SetFlag True, Login True True, Save 1, SetFlag False, SetSession, Release, Parse]"
  by (simp add: run_defs)

section \<open>The credential built from the cookies\<close>

text \<open>
  C2, the code at the failing input. The cookies yield a credential with music id and music
  key that is not expired. Line 171 raises for it: the credential is not installed, a QR
  login runs, and the slot ends up holding the credential of that login.
\<close>

theorem unexpired_cookie_credential_rejected:
  "truthy (cookies configured)
   \<and> has_musicid fresh_credential \<and> has_musickey fresh_credential \<and> \<not> is_expired fresh_credential
   \<and> snd (credential_from_cookies
             ((calm stale_credential)\<lparr>from_cookies_dict := (\<lambda>_. Some fresh_credential)\<rparr>) configured) = None
   \<and> trace (fst (credential_guard
             ((calm stale_credential)\<lparr>from_cookies_dict := (\<lambda>_. Some fresh_credential)\<rparr>) configured))
       = [Acquire, FromCookies, SetFlag True, Login True True, Save 0, SetFlag False, Refresh 0,
          SetSession, Release]
   \<and> heap (fst (credential_guard
             ((calm stale_credential)\<lparr>from_cookies_dict := (\<lambda>_. Some fresh_credential)\<rparr>) configured)) 0
       = renewed stale_credential"
  by (simp add: run_defs)

section \<open>What reaches durable storage\<close>





lemma login_succeeds_returns:
  "qrcode_login_example (login_succeeds c) 60 = Some (Returned (Some c))"
  by (simp add: qrcode_login_example_def login_succeeds_def)




section \<open>When the refresh is invoked\<close>

lemma guard_body_refresh:
  "guard_body e s = (s', r) \<Longrightarrow>
     (Refresh q \<in> set (new_events s s')) \<longleftrightarrow>
     (\<exists>s1. ensure_credential e s = (s1, Done ()) \<and> global_credential s1 = Some q
           \<and> can_refresh (heap s1 q))"
  by (auto simp: handler_defs needs_credential_def split: handler_splits)

lemma refresh_step_in_place:
  "refresh_step e s = (s', r) \<Longrightarrow>
     global_credential s' = global_credential s \<and> next_ref s' = next_ref s
     \<and> (global_credential s \<noteq> Some q \<longrightarrow> heap s' q = heap s q)"
  by (auto simp: handler_defs split: handler_splits)

text \<open>
  C5, as the code has it. The refresh check is a statement of its own after the \<open>if\<close>
  statement, not its \<open>else\<close>: \<open>refresh()\<close> is invoked exactly when the first statement
  completes with a credential in the slot whose \<open>can_refresh()\<close> holds, whether that
  credential was already current or has just been installed from the cookies or by a login.
  The refresh works on the object in place: the slot keeps its reference, no object is
  created, and no other object changes.
\<close>

theorem refresh_after_any_branch:
  "((Refresh q \<in> set (new_events s (fst (guard_body e s)))) \<longleftrightarrow>
      (\<exists>s1. ensure_credential e s = (s1, Done ()) \<and> global_credential s1 = Some q
            \<and> can_refresh (heap s1 q)))
   \<and> global_credential (fst (refresh_step e s)) = global_credential s
   \<and> next_ref (fst (refresh_step e s)) = next_ref s
   \<and> (global_credential s \<noteq> Some q \<longrightarrow> heap (fst (refresh_step e s)) q = heap s q)
   \<and> (global_credential s = Some q \<and> can_refresh (heap s q) \<longrightarrow>
        heap (fst (refresh_step e s)) q = refresh_mutation e (heap s q))"
proof -
  have 1: "(Refresh q \<in> set (new_events s (fst (guard_body e s)))) \<longleftrightarrow>
      (\<exists>s1. ensure_credential e s = (s1, Done ()) \<and> global_credential s1 = Some q
            \<and> can_refresh (heap s1 q))"
    using guard_body_refresh[of e s "fst (guard_body e s)" "snd (guard_body e s)" q] by simp
  have 2: "global_credential (fst (refresh_step e s)) = global_credential s
     \<and> next_ref (fst (refresh_step e s)) = next_ref s
     \<and> (global_credential s \<noteq> Some q \<longrightarrow> heap (fst (refresh_step e s)) q = heap s q)"
    using refresh_step_in_place[of e s "fst (refresh_step e s)" "snd (refresh_step e s)" q] by simp
  have 3: "global_credential s = Some q \<and> can_refresh (heap s q) \<longrightarrow>
        heap (fst (refresh_step e s)) q = refresh_mutation e (heap s q)"
    by (auto simp: refresh_step_def emit_def Let_def split: call.splits)
  from 1 2 3 show ?thesis by blast
qed

lemma cookie_guard_trace:
  "trace (fst (credential_guard
             ((calm fresh_credential)\<lparr>from_cookies_dict := (\<lambda>_. Some stale_credential)\<rparr>) configured))
     = [Acquire, FromCookies, Refresh 0, SetSession, Release]"
  by (simp add: run_defs)

text \<open>
  A refresh step with an empty slot leaves the store alone; with a refreshable credential in
  the slot it changes that object and keeps the slot.
\<close>

theorem refresh_after_any_branch_witness:
  "global_credential startup \<noteq> Some 0
   \<and> heap (fst (refresh_step (calm fresh_credential) startup)) 0 = heap startup 0
   \<and> global_credential (holding stale_credential) = Some 0
   \<and> can_refresh (heap (holding stale_credential) 0)
   \<and> heap (fst (refresh_step (calm fresh_credential) (holding stale_credential))) 0
       = renewed stale_credential
   \<and> global_credential (fst (refresh_step (calm fresh_credential) (holding stale_credential))) = Some 0"
proof -
  have a: "global_credential startup \<noteq> Some 0" by (simp add: startup_def)
  have b: "global_credential (holding stale_credential) = Some 0"
          "can_refresh (heap (holding stale_credential) 0)"
          "heap (holding stale_credential) 0 = stale_credential"
    by (simp_all add: holding_def stale_credential_def)
  have c: "refresh_mutation (calm fresh_credential) = renewed" by (simp add: calm_def)
  from refresh_after_any_branch[of 0 startup "calm fresh_credential"]
       refresh_after_any_branch[of 0 "holding stale_credential" "calm fresh_credential"]
       a b c
  show ?thesis by metis
qed

text \<open>
  No current credential in either run. A credential accepted from the cookies is refreshed
  in the same request; so is a credential that a login has just returned.
\<close>

theorem refresh_after_reconstruction_counterexample:
  "global_credential configured = None
   \<and> trace (fst (credential_guard
             ((calm fresh_credential)\<lparr>from_cookies_dict := (\<lambda>_. Some stale_credential)\<rparr>) configured))
       = [Acquire, FromCookies, Refresh 0, SetSession, Release]
   \<and> global_credential startup = None
   \<and> trace (fst (credential_guard (calm stale_credential) startup))
       = [Acquire, SetFlag True, Login True True, Save 0, SetFlag False, Refresh 0, SetSession, Release]"
  by (simp add: run_defs)

section \<open>An expired credential reported by the upstream service\<close>

lemma guard_done_unlocked:
  "credential_guard e s = (s', Done u) \<Longrightarrow> \<not> credential_lock s'"
  by (auto simp: credential_guard_def with_credential_lock_def emit_def split: handler_splits)

lemma dispatch_expired:
  assumes p: "parse e = Some (result, Some es)" and m: "expired_marker \<in> set es"
    and l: "\<not> credential_lock s" and d: "dispatch e s = (s', r)"
  shows "(qrcode_login_example (retry_login e) 60 = Some (Returned oc) \<longrightarrow>
            r = Done (error (now e) (ErrList es) ''Request Validation Failed'' HTTP_422_UNPROCESSABLE_ENTITY)
            \<and> new_events s s'
                = [Parse, Acquire, SetFlag True, Login True True]
                  @ (case oc of None \<Rightarrow> [] | Some c \<Rightarrow> [Save (next_ref s)])
                  @ [SetFlag False, Release]
            \<and> global_credential s' = (case oc of None \<Rightarrow> None | Some c \<Rightarrow> Some (next_ref s))
            \<and> (\<forall>c. oc = Some c \<longrightarrow> heap s' (next_ref s) = c
                     \<and> config s' = save_credential_to_file (retry_save e) c (config s))
            \<and> \<not> is_logging_in s' \<and> \<not> credential_lock s')
       \<and> (qrcode_login_example (retry_login e) 60 = Some RaisedException \<longrightarrow>
            r = Raise
            \<and> new_events s s' = [Parse, Acquire, SetFlag True, Login True True, SetFlag False, Release]
            \<and> global_credential s' = global_credential s
            \<and> \<not> is_logging_in s' \<and> \<not> credential_lock s')"
  using p m l d
  by (cases oc) (auto simp: dispatch_def handle_errors_def handler_defs split: handler_splits)

text \<open>
  C7, as the code has it. The guard has completed and the dispatched call reports errors that
  contain the credential-expired marker. If the login that follows returns (a credential or
  \<open>None\<close>), the request ends with the original error list and status 422, after exactly
  one parse and exactly one login, run under the lock between raising and clearing the flag,
  the new credential being installed and saved when there is one. If the login raises, the
  flag is cleared and the lock released all the same, but the exception leaves the handler
  and no error list is returned.
\<close>

theorem expired_error_relogin_once:
  assumes "\<not> is_logging_in s" and "credential_guard e s = (s1, Done ())"
    and "parse e = Some (result, Some es)" and "expired_marker \<in> set es"
    and "api_web e s = (s', r)"
  shows "(qrcode_login_example (retry_login e) 60 = Some (Returned oc) \<longrightarrow>
            r = Done (error (now e) (ErrList es) ''Request Validation Failed'' HTTP_422_UNPROCESSABLE_ENTITY)
            \<and> new_events s1 s'
                = [Parse, Acquire, SetFlag True, Login True True]
                  @ (case oc of None \<Rightarrow> [] | Some c \<Rightarrow> [Save (next_ref s1)])
                  @ [SetFlag False, Release]
            \<and> global_credential s' = (case oc of None \<Rightarrow> None | Some c \<Rightarrow> Some (next_ref s1))
            \<and> (\<forall>c. oc = Some c \<longrightarrow> heap s' (next_ref s1) = c
                     \<and> config s' = save_credential_to_file (retry_save e) c (config s1))
            \<and> \<not> is_logging_in s' \<and> \<not> credential_lock s')
       \<and> (qrcode_login_example (retry_login e) 60 = Some RaisedException \<longrightarrow>
            r = Raise
            \<and> new_events s1 s' = [Parse, Acquire, SetFlag True, Login True True, SetFlag False, Release]
            \<and> global_credential s' = global_credential s1
            \<and> \<not> is_logging_in s' \<and> \<not> credential_lock s')"
proof -
  from assms(1,2,5) have d: "dispatch e s1 = (s', r)" by (simp add: api_web_def)
  from guard_done_unlocked[OF assms(2)] have l: "\<not> credential_lock s1" .
  from dispatch_expired[OF assms(3,4) l d] show ?thesis .
qed

lemma quiet_guard:
  "credential_guard (upstream_expired io) (holding unidentified_credential)
     = (fst (credential_guard (upstream_expired io) (holding unidentified_credential)), Done ())"
proof -
  have "snd (credential_guard (upstream_expired io) (holding unidentified_credential)) = Done ()"
    by (simp add: run_defs)
  then show ?thesis by (metis prod.collapse)
qed

lemma login_crashes_raises: "qrcode_login_example login_crashes 60 = Some RaisedException"
  by (simp add: qrcode_login_example_def login_crashes_def)

text \<open>
  The same request with a login that succeeds and with a login that raises.
\<close>

theorem expired_error_relogin_once_witness:
  "\<not> is_logging_in (holding unidentified_credential)
   \<and> snd (credential_guard (upstream_expired (login_succeeds fresh_credential))
            (holding unidentified_credential)) = Done ()
   \<and> parse (upstream_expired (login_succeeds fresh_credential)) = Some (JNull, Some [expired_marker])
   \<and> expired_marker \<in> set [expired_marker]
   \<and> qrcode_login_example (retry_login (upstream_expired (login_succeeds fresh_credential))) 60
       = Some (Returned (Some fresh_credential))
   \<and> snd (api_web (upstream_expired (login_succeeds fresh_credential)) (holding unidentified_credential))
       = Done (error 1700000000 (ErrList [expired_marker]) ''Request Validation Failed''
                 HTTP_422_UNPROCESSABLE_ENTITY)
   \<and> qrcode_login_example (retry_login (upstream_expired login_crashes)) 60 = Some RaisedException
   \<and> snd (api_web (upstream_expired login_crashes) (holding unidentified_credential)) = Raise"
proof -
  let ?S = "holding unidentified_credential"
  let ?E = "upstream_expired (login_succeeds fresh_credential)"
  let ?F = "upstream_expired login_crashes"
  have a: "\<not> is_logging_in ?S" by (simp add: holding_def startup_def)
  have p: "parse ?E = Some (JNull, Some [expired_marker])" "parse ?F = Some (JNull, Some [expired_marker])"
    by (simp_all add: upstream_expired_def calm_def)
  have m: "expired_marker \<in> set [expired_marker]" by simp
  have t: "now ?E = 1700000000" by (simp add: upstream_expired_def calm_def)
  have q: "qrcode_login_example (retry_login ?E) 60 = Some (Returned (Some fresh_credential))"
          "qrcode_login_example (retry_login ?F) 60 = Some RaisedException"
    by (simp_all add: upstream_expired_def login_succeeds_returns login_crashes_raises)
  have wE: "api_web ?E ?S = (fst (api_web ?E ?S), snd (api_web ?E ?S))" by simp
  have wF: "api_web ?F ?S = (fst (api_web ?F ?S), snd (api_web ?F ?S))" by simp
  from expired_error_relogin_once[OF a quiet_guard p(1) m wE, of "Some fresh_credential"] q(1) t
  have 1: "snd (api_web ?E ?S) = Done (error 1700000000 (ErrList [expired_marker])
             ''Request Validation Failed'' HTTP_422_UNPROCESSABLE_ENTITY)" by simp
  from expired_error_relogin_once[OF a quiet_guard p(2) m wF, of None] q(2)
  have 2: "snd (api_web ?F ?S) = Raise" by simp
  from quiet_guard[of "login_succeeds fresh_credential"]
  have g: "snd (credential_guard ?E ?S) = Done ()" by (metis snd_conv)
  from a g p(1) m q 1 2 show ?thesis by simp
qed

text \<open>
  The upstream error carries the marker and fetching the QR code raises: the handler raises
  instead of returning the error list, and the client receives the 500 response.
\<close>

theorem expired_error_response_counterexample:
  "parse (upstream_expired login_crashes) = Some (JNull, Some [expired_marker])
   \<and> qrcode_login_example login_crashes 60 = Some RaisedException
   \<and> snd (api_web (upstream_expired login_crashes) (holding unidentified_credential)) = Raise
   \<and> trace (fst (api_web (upstream_expired login_crashes) (holding unidentified_credential)))
       = [Acquire, SetSession, Release, Parse, Acquire, SetFlag True, Login True True,
          SetFlag False, Release]
   \<and> snd (endpoint (upstream_expired login_crashes) (holding unidentified_credential))
       = Done (error 1700000000 (ErrList [msg_server_error]) ''Internal Server Error''
                 HTTP_500_INTERNAL_SERVER_ERROR)"
  by (simp add: endpoint_def server_error_handler_def run_defs)

section \<open>The storage helpers\<close>

text \<open>
  C9, as the code has it. Loading never raises: any fault while creating or reading the file,
  a file that is not JSON and a document that is not an object all give the empty dict; a
  missing file is created with an empty credential map. When the document is an object the
  result is whatever it stores under \<open>cookies\<close> (the empty dict if the key is missing),
  which is a dict only if the file stores one there. Saving never raises: whatever the write
  fault, the login block completes with the new credential installed and the flag cleared.
\<close>

theorem storage_helpers_swallow_faults:
  "((f = Absent \<and> create \<noteq> NoFault) \<or> \<not> read_ok \<or> f = Garbage \<or> (\<exists>j. f = Doc j \<and> \<not> is_dict j)
      \<longrightarrow> snd (load_credential_from_file create read_ok f) = JObj [])
   \<and> load_credential_from_file NoFault True Absent
       = (Doc (JObj [(''cookies'', JObj [])]), JObj [])
   \<and> (read_ok \<longrightarrow>
        snd (load_credential_from_file create read_ok (Doc (JObj kvs)))
          = (case map_of kvs ''cookies'' of Some v \<Rightarrow> v | None \<Rightarrow> JObj []))
   \<and> (qrcode_login_example io 60 = Some (Returned (Some c)) \<longrightarrow>
        snd (relogin io fault s) = Done ()
        \<and> global_credential (fst (relogin io fault s)) = Some (next_ref s)
        \<and> heap (fst (relogin io fault s)) (next_ref s) = c
        \<and> \<not> is_logging_in (fst (relogin io fault s)))"
proof (intro conjI impI)
  assume "(f = Absent \<and> create \<noteq> NoFault) \<or> \<not> read_ok \<or> f = Garbage \<or> (\<exists>j. f = Doc j \<and> \<not> is_dict j)"
  then show "snd (load_credential_from_file create read_ok f) = JObj []"
    by (cases create; cases f)
       (auto simp: load_credential_from_file_def split: config_file.splits json.splits)
next
  show "load_credential_from_file NoFault True Absent = (Doc (JObj [(''cookies'', JObj [])]), JObj [])"
    by (simp add: load_credential_from_file_def)
next
  assume read_ok
  then show "snd (load_credential_from_file create read_ok (Doc (JObj kvs)))
          = (case map_of kvs ''cookies'' of Some v \<Rightarrow> v | None \<Rightarrow> JObj [])"
    by (simp add: load_credential_from_file_def)
next
  assume "qrcode_login_example io 60 = Some (Returned (Some c))"
  then show "snd (relogin io fault s) = Done ()"
    and "global_credential (fst (relogin io fault s)) = Some (next_ref s)"
    and "heap (fst (relogin io fault s)) (next_ref s) = c"
    and "\<not> is_logging_in (fst (relogin io fault s))"
    by (simp_all add: relogin_def emit_def alloc_def Let_def)
qed

text \<open>
  Faulty reads and writes, and a login whose save fails half-way.
\<close>

theorem storage_helpers_swallow_faults_witness:
  "snd (load_credential_from_file NoFault True Garbage) = JObj []
   \<and> snd (load_credential_from_file OpenFault True Absent) = JObj []
   \<and> snd (load_credential_from_file NoFault False (Doc (JObj [(''cookies'', JObj [(''musicid'', JInt 10001)])])))
       = JObj []
   \<and> snd (load_credential_from_file NoFault True (Doc (JArr [])) ) = JObj []
   \<and> snd (load_credential_from_file NoFault True (Doc (JObj [(''cookies'', JObj [(''musicid'', JInt 10001)])])))
       = JObj [(''musicid'', JInt 10001)]
   \<and> qrcode_login_example (login_succeeds fresh_credential) 60 = Some (Returned (Some fresh_credential))
   \<and> snd (relogin (login_succeeds fresh_credential) DumpFault startup) = Done ()
   \<and> global_credential (fst (relogin (login_succeeds fresh_credential) DumpFault startup)) = Some 0
   \<and> heap (fst (relogin (login_succeeds fresh_credential) DumpFault startup)) 0 = fresh_credential"
proof -
  have n: "next_ref startup = 0" by (simp add: startup_def)
  have d: "\<exists>j. Doc (JArr []) = Doc j \<and> \<not> is_dict j" by simp
  from storage_helpers_swallow_faults[of Garbage NoFault True "[]" "login_succeeds fresh_credential" fresh_credential DumpFault startup]
       storage_helpers_swallow_faults[of Absent OpenFault True]
       storage_helpers_swallow_faults[of "Doc (JObj [(''cookies'', JObj [(''musicid'', JInt 10001)])])" NoFault False]
       storage_helpers_swallow_faults[of "Doc (JArr [])" NoFault True "[(''cookies'', JObj [(''musicid'', JInt 10001)])]"] d
       login_succeeds_returns[of fresh_credential] n
  show ?thesis by simp
qed

text \<open>
  The file stores the cookie header as one string under \<open>cookies\<close>: the value returned
  is that string, not a dict.
\<close>

theorem load_returns_dict_counterexample:
  "load_credential_from_file NoFault True
       (Doc (JObj [(''cookies'', JStr ''uin=10001; qm_keyst=Q_H_L_fresh'')]))
     = (Doc (JObj [(''cookies'', JStr ''uin=10001; qm_keyst=Q_H_L_fresh'')]),
        JStr ''uin=10001; qm_keyst=Q_H_L_fresh'')
   \<and> \<not> is_dict (JStr ''uin=10001; qm_keyst=Q_H_L_fresh'')"
  by (simp add: load_credential_from_file_def)

end
